theory Spec2Isabelle
  imports Complex_Main
begin

section \<open>The state cells of \<open>TypingSpeedApp\<close> (src/src/App.tsx, lines 19-34)\<close>

text \<open>
  Every \<open>useState\<close> cell of the component that the timing and statistics code reads is
  one field of the record. Timestamps are the integer milliseconds of \<open>Date.now()\<close>;
  \<open>number | null\<close> is \<open>int option\<close>. The two keystroke counters and the timer
  setting start at 0 and are only ever incremented or chosen from the options
  0, 1, 3, 5 and 10, so they are natural numbers. A JavaScript string is a \<open>string\<close>:
  one \<open>char\<close> stands for one code unit (below 256), so \<open>length\<close> is \<open>.length\<close>.
  The cell \<open>text\<close> is the field \<open>text_st\<close>.
\<close>

record app_state =
  text_st :: string
  isRunning :: bool
  startedAt :: "int option"
  lastStart :: "int option"
  accumulatedMs :: int
  now :: int
  totalKeystrokes :: nat
  backspaces :: nat
  timerMinutes :: nat

text \<open>The values the cells are created with; \<open>n0\<close> is \<open>Date.now()\<close> at mount.\<close>

definition initial :: "int \<Rightarrow> app_state" where
  "initial n0 =
     \<lparr>text_st = [], isRunning = False, startedAt = None, lastStart = None,
      accumulatedMs = 0, now = n0, totalKeystrokes = 0, backspaces = 0,
      timerMinutes = 0\<rparr>"

definition timerEnabled :: "app_state \<Rightarrow> bool" where
  "timerEnabled s = (timerMinutes s > 0)"

definition timerMs :: "app_state \<Rightarrow> int" where
  "timerMs s = int (timerMinutes s) * 60000"

text \<open>
  Lines 39-43: while the session runs, an interval stores \<open>Date.now()\<close> in \<open>now\<close>;
  when it does not run there is no interval.
\<close>

definition tick :: "int \<Rightarrow> app_state \<Rightarrow> app_state" where
  "tick ts s = (if \<not> isRunning s then s else s\<lparr>now := ts\<rparr>)"

text \<open>
  Lines 45-48. \<open>isRunning && lastStart\<close> is a truthiness test: a \<open>lastStart\<close> that is
  \<open>null\<close> or the number 0 takes the else branch.
\<close>

definition activeElapsedMs :: "app_state \<Rightarrow> int" where
  "activeElapsedMs s =
     (let runningMs =
        (case lastStart s of
           None \<Rightarrow> 0
         | Some l \<Rightarrow> if isRunning s \<and> l \<noteq> 0 then now s - l else 0)
      in accumulatedMs s + runningMs)"

text \<open>Lines 51-59: the effect that stops the session when the timer elapses.\<close>

definition timerExpiryEffect :: "app_state \<Rightarrow> app_state" where
  "timerExpiryEffect s =
     (if \<not> timerEnabled s then s
      else if \<not> isRunning s then s
      else if activeElapsedMs s \<ge> timerMs s \<and> timerMs s > 0
        then s\<lparr>isRunning := False, lastStart := None\<rparr>
      else s)"

section \<open>Event handlers (lines 78-125)\<close>

text \<open>Each handler reads \<open>Date.now()\<close> once; that reading is the argument \<open>ts\<close>.\<close>

definition startIfNeeded :: "int \<Rightarrow> app_state \<Rightarrow> app_state" where
  "startIfNeeded ts s =
     (let s1 = (if startedAt s = None then s\<lparr>startedAt := Some ts\<rparr> else s)
      in if \<not> isRunning s then s1\<lparr>isRunning := True, lastStart := Some ts\<rparr> else s1)"

definition handleChange :: "int \<Rightarrow> string \<Rightarrow> app_state \<Rightarrow> app_state" where
  "handleChange ts v s =
     (let s1 = (if length v > 0 then startIfNeeded ts s else s)
      in s1\<lparr>text_st := v\<rparr>)"

definition isPrintable :: "string \<Rightarrow> bool" where
  "isPrintable key =
     (length key = 1 \<or> key = ''Enter'' \<or> key = ''Tab'' \<or> key = '' '' \<or> key = ''Spacebar'')"

definition handleKeyDown :: "string \<Rightarrow> app_state \<Rightarrow> app_state" where
  "handleKeyDown key s =
     (let s1 = (if isPrintable key then s\<lparr>totalKeystrokes := totalKeystrokes s + 1\<rparr> else s)
      in if key = ''Backspace''
         then s1\<lparr>backspaces := backspaces s1 + 1, totalKeystrokes := totalKeystrokes s1 + 1\<rparr>
         else s1)"

definition pauseResume :: "int \<Rightarrow> app_state \<Rightarrow> app_state" where
  "pauseResume ts s =
     (if isRunning s then
        (let s1 =
           (case lastStart s of
              None \<Rightarrow> s
            | Some l \<Rightarrow>
                if l \<noteq> 0 then s\<lparr>accumulatedMs := accumulatedMs s + (ts - l)\<rparr> else s)
         in s1\<lparr>isRunning := False, lastStart := None\<rparr>)
      else
        (let s1 = s\<lparr>isRunning := True, lastStart := Some ts\<rparr>
         in if startedAt s = None then s1\<lparr>startedAt := Some ts\<rparr> else s1))"

definition resetAll :: "int \<Rightarrow> app_state \<Rightarrow> app_state" where
  "resetAll ts s =
     s\<lparr>text_st := [], isRunning := False, startedAt := None, lastStart := None,
       accumulatedMs := 0, now := ts, totalKeystrokes := 0, backspaces := 0\<rparr>"

text \<open>Line 180: the \<open>onChange\<close> of the timer select.\<close>

definition setTimerMinutes :: "nat \<Rightarrow> app_state \<Rightarrow> app_state" where
  "setTimerMinutes n s = s\<lparr>timerMinutes := n\<rparr>"

section \<open>The operations of the specification, in terms of the handlers\<close>

text \<open>
  \<open>start\<close> is \<open>startIfNeeded\<close>; \<open>toggleRunning\<close> is the Pause/Resume button;
  \<open>pause\<close> is the running branch of \<open>pauseResume\<close> and nothing otherwise;
  \<open>checkTimerExpiry\<close> is one firing of the interval followed by the expiry effect;
  \<open>getActiveElapsedMs\<close> is \<open>activeElapsedMs\<close> read at the given time.
\<close>

definition pause :: "int \<Rightarrow> app_state \<Rightarrow> app_state" where
  "pause ts s = (if isRunning s then pauseResume ts s else s)"

definition checkTimerExpiry :: "int \<Rightarrow> app_state \<Rightarrow> app_state" where
  "checkTimerExpiry ts s = timerExpiryEffect (tick ts s)"

definition getActiveElapsedMs :: "int \<Rightarrow> app_state \<Rightarrow> int" where
  "getActiveElapsedMs ts s = activeElapsedMs (s\<lparr>now := ts\<rparr>)"

datatype event =
    OnTextChanged string int
  | OnKeyEvent string
  | Start int
  | Pause int
  | ToggleRunning int
  | Reset int
  | SetTimerMinutes nat
  | CheckTimerExpiry int
  | Tick int
  | ExpiryEffect

fun step :: "app_state \<Rightarrow> event \<Rightarrow> app_state" where
  "step s (OnTextChanged v ts) = handleChange ts v s"
| "step s (OnKeyEvent key) = handleKeyDown key s"
| "step s (Start ts) = startIfNeeded ts s"
| "step s (Pause ts) = pause ts s"
| "step s (ToggleRunning ts) = pauseResume ts s"
| "step s (Reset ts) = resetAll ts s"
| "step s (SetTimerMinutes n) = setTimerMinutes n s"
| "step s (CheckTimerExpiry ts) = checkTimerExpiry ts s"
| "step s (Tick ts) = tick ts s"
| "step s ExpiryEffect = timerExpiryEffect s"

definition run :: "app_state \<Rightarrow> event list \<Rightarrow> app_state" where
  "run s evs = foldl step s evs"

section \<open>Derived statistics (lines 61-76)\<close>

text \<open>
  JavaScript numbers are IEEE doubles. The statistics are modelled in exact real
  arithmetic: the quotients below are the real quotients, not their nearest doubles.
  In that model every value is finite, so \<open>Number.isFinite\<close> is constantly true; it
  is kept as a function so that \<open>stats\<close> reads like the source. (The two divisions
  of \<open>stats\<close> are guarded by \<open>elapsedMinutes > 0\<close> and \<open>totalKeystrokes > 0\<close>, and
  the elapsed time is a whole number of milliseconds.)
\<close>

definition Number_isFinite :: "real \<Rightarrow> bool" where
  "Number_isFinite x = True"

text \<open>
  The white space of \<open>String.prototype.trim\<close> and of the class \<open>\s\<close> among the
  code units below 256: tab, line feed, vertical tab, form feed, carriage return,
  space and no-break space.
\<close>

definition isSpace :: "char \<Rightarrow> bool" where
  "isSpace c =
     (c \<in> {CHR 0x09, CHR 0x0A, CHR 0x0B, CHR 0x0C, CHR 0x0D, CHR 0x20, CHR 0xA0})"

definition trim :: "string \<Rightarrow> string" where
  "trim s = rev (dropWhile isSpace (rev (dropWhile isSpace s)))"

text \<open>
  \<open>s.split(/\s+/)\<close>: \<open>split_ws [] s\<close>. The first argument is the piece collected
  since the last separator; a separator is a maximal run of white space; the piece
  before a separator and the piece after the last one are kept even when empty.
\<close>

function split_ws :: "string \<Rightarrow> string \<Rightarrow> string list" where
  "split_ws cur [] = [cur]"
| "split_ws cur (c # cs) =
     (if isSpace c then cur # split_ws [] (dropWhile isSpace cs)
      else split_ws (cur @ [c]) cs)"
  by pat_completeness auto
termination
  by (relation "measure (\<lambda>(cur, cs). length cs)")
    (auto simp: le_imp_less_Suc length_dropWhile_le)

record stats_rec =
  chars :: nat
  words :: nat
  wpmGross :: real
  netWpm :: real
  accuracy :: real

definition elapsedMinutes :: "app_state \<Rightarrow> real" where
  "elapsedMinutes s = of_int (activeElapsedMs s) / 60000"

definition stats :: "app_state \<Rightarrow> stats_rec" where
  "stats s =
     (let chars_v = length (text_st s);
          words_v = (if trim (text_st s) \<noteq> [] then length (split_ws [] (trim (text_st s))) else 0);
          wpmGross_v =
            (if elapsedMinutes s > 0 then (of_nat chars_v / 5) / elapsedMinutes s else 0);
          accuracy_v =
            (if totalKeystrokes s > 0
             then (of_nat chars_v / of_nat (totalKeystrokes s)) * 100 else 100);
          netWpm_v = wpmGross_v * (accuracy_v / 100)
      in \<lparr>chars = chars_v,
          words = words_v,
          wpmGross = (if Number_isFinite wpmGross_v then wpmGross_v else 0),
          netWpm = (if Number_isFinite netWpm_v then netWpm_v else 0),
          accuracy = max 0 (min 100 accuracy_v)\<rparr>)"

text \<open>\<open>computeStats(now)\<close> of the specification: the statistics read at time \<open>ts\<close>.\<close>

definition computeStats :: "int \<Rightarrow> app_state \<Rightarrow> stats_rec" where
  "computeStats ts s = stats (s\<lparr>now := ts\<rparr>)"

text \<open>
  The words of the specification: the white-space-delimited tokens of a text are its
  maximal runs of characters that are not white space.
\<close>

function tokens :: "string \<Rightarrow> string list" where
  "tokens [] = []"
| "tokens (c # cs) =
     (if isSpace c then tokens cs
      else (c # takeWhile (\<lambda>x. \<not> isSpace x) cs)
             # tokens (dropWhile (\<lambda>x. \<not> isSpace x) cs))"
  by pat_completeness auto
termination
  by (relation "measure length") (auto simp: le_imp_less_Suc length_dropWhile_le)

section \<open>The exported report (lines 132-158)\<close>

text \<open>
  \<open>Math.round\<close> rounds to the nearest integer, a half towards plus infinity.
\<close>

definition Math_round :: "real \<Rightarrow> int" where
  "Math_round x = \<lfloor>x + 1 / 2\<rfloor>"

text \<open>Decimal numerals, as \<open>Array.prototype.join\<close> writes an integer.\<close>

definition digit :: "nat \<Rightarrow> char" where
  "digit d = ''0123456789'' ! d"

fun show_nat :: "nat \<Rightarrow> string" where
  "show_nat n = (if n < 10 then [digit n] else show_nat (n div 10) @ [digit (n mod 10)])"

declare show_nat.simps [simp del]

definition show_int :: "int \<Rightarrow> string" where
  "show_int i = (if i < 0 then CHR ''-'' # show_nat (nat (- i)) else show_nat (nat i))"

text \<open>
  \<open>Number(x.toFixed(2))\<close> as \<open>join\<close> writes it, for \<open>x \<ge> 0\<close> (the three values it is
  applied to are never negative): \<open>x\<close> is rounded to hundredths, a half upwards, and
  the zeros at the end of the fraction are dropped.
\<close>

definition show_fixed2 :: "real \<Rightarrow> string" where
  "show_fixed2 x =
     (let n = nat \<lfloor>x * 100 + 1 / 2\<rfloor>
      in if n mod 100 = 0 then show_nat (n div 100)
         else if n mod 10 = 0 then show_nat (n div 100) @ CHR ''.'' # [digit (n div 10 mod 10)]
         else show_nat (n div 100) @ CHR ''.'' # [digit (n div 10 mod 10), digit (n mod 10)])"

fun join_comma :: "string list \<Rightarrow> string" where
  "join_comma [] = []"
| "join_comma [x] = x"
| "join_comma (x # y # ys) = x @ CHR '','' # join_comma (y # ys)"

text \<open>The keys and the values of the object \<open>row\<close>, in the order they are written.\<close>

definition row_keys :: "string list" where
  "row_keys =
     [''date'', ''duration_seconds'', ''characters'', ''words'', ''wpm_gross'', ''wpm_net'',
      ''accuracy_percent'', ''keystrokes'', ''backspaces'', ''timer_minutes'']"

definition row_values :: "string \<Rightarrow> app_state \<Rightarrow> string list" where
  "row_values date s =
     [date,
      show_int (Math_round (of_int (activeElapsedMs s) / 1000)),
      show_nat (chars (stats s)),
      show_nat (words (stats s)),
      show_fixed2 (wpmGross (stats s)),
      show_fixed2 (netWpm (stats s)),
      show_fixed2 (accuracy (stats s)),
      show_nat (totalKeystrokes s),
      show_nat (backspaces s),
      show_nat (timerMinutes s)]"

text \<open>
  Line 148 writes the separator as the string literal \<open>"\\n"\<close>: a backslash followed
  by the letter n, two characters, not a line feed. \<open>date\<close> is
  \<open>new Date().toISOString()\<close>.
\<close>

definition row_sep :: string where
  "row_sep = [CHR 0x5C, CHR ''n'']"

definition downloadReport_csv :: "string \<Rightarrow> app_state \<Rightarrow> string" where
  "downloadReport_csv date s =
     join_comma row_keys @ row_sep @ join_comma (row_values date s) @ row_sep"

text \<open>Splitting a text into rows at line feeds, and a row into fields at commas.\<close>

fun split_on :: "char \<Rightarrow> string \<Rightarrow> string \<Rightarrow> string list" where
  "split_on d cur [] = [cur]"
| "split_on d cur (c # cs) =
     (if c = d then cur # split_on d [] cs else split_on d (cur @ [c]) cs)"

section \<open>Formatting a duration (lines 246-251)\<close>

text \<open>
  \<open>Math.floor\<close> of a quotient of integers is \<open>div\<close>; the remainder operator
  \<open>%\<close> takes the sign of the dividend; \<open>padStart(2, "0")\<close> fills up to two
  characters.
\<close>

definition js_rem :: "int \<Rightarrow> int \<Rightarrow> int" where
  "js_rem a b = sgn a * (\<bar>a\<bar> mod \<bar>b\<bar>)"

definition padStart2 :: "string \<Rightarrow> string" where
  "padStart2 x = replicate (2 - length x) (CHR ''0'') @ x"

definition formatTime :: "int \<Rightarrow> string" where
  "formatTime ms =
     (let totalSeconds = ms div 1000;
          m = padStart2 (show_int (totalSeconds div 60));
          s = padStart2 (show_int (js_rem totalSeconds 60))
      in m @ CHR '':'' # s)"

section \<open>Sequences of operations and their clock\<close>

text \<open>
  The timestamp an operation reads, if it reads one; a sequence whose readings never
  go backwards, starting from a reading \<open>c\<close>; the last reading of a sequence.
\<close>

fun ev_time :: "event \<Rightarrow> int option" where
  "ev_time (OnTextChanged v ts) = Some ts"
| "ev_time (OnKeyEvent key) = None"
| "ev_time (Start ts) = Some ts"
| "ev_time (Pause ts) = Some ts"
| "ev_time (ToggleRunning ts) = Some ts"
| "ev_time (Reset ts) = Some ts"
| "ev_time (SetTimerMinutes n) = None"
| "ev_time (CheckTimerExpiry ts) = Some ts"
| "ev_time (Tick ts) = Some ts"
| "ev_time ExpiryEffect = None"

fun clock_ok :: "int \<Rightarrow> event list \<Rightarrow> bool" where
  "clock_ok c [] = True"
| "clock_ok c (e # es) =
     (case ev_time e of None \<Rightarrow> clock_ok c es | Some t \<Rightarrow> c \<le> t \<and> clock_ok t es)"

fun clock_after :: "int \<Rightarrow> event list \<Rightarrow> int" where
  "clock_after c [] = c"
| "clock_after c (e # es) =
     (case ev_time e of None \<Rightarrow> clock_after c es | Some t \<Rightarrow> clock_after t es)"

text \<open>The session was last resumed no later than the reading \<open>c\<close>.\<close>

definition resumed_by :: "int \<Rightarrow> app_state \<Rightarrow> bool" where
  "resumed_by c s = (case lastStart s of None \<Rightarrow> True | Some l \<Rightarrow> l \<le> c)"

fun is_reset :: "event \<Rightarrow> bool" where
  "is_reset (Reset ts) = True"
| "is_reset e = False"

text \<open>\<open>lastStart\<close> is set exactly when the session runs.\<close>

definition resume_inv :: "app_state \<Rightarrow> bool" where
  "resume_inv s = ((lastStart s \<noteq> None) = isRunning s)"

section \<open>States used as examples\<close>

text \<open>
  A one-minute timer is chosen, one character is typed at 1000 ms, and the interval
  last fired at 60900 ms: the session runs since 1000 ms.
\<close>

definition expiring_state :: app_state where
  "expiring_state =
     run (initial 0)
       [SetTimerMinutes 1, OnKeyEvent ''a'', OnTextChanged ''a'' 1000, Tick 60900]"

text \<open>
  Ten characters are pasted with Control and v at 1000 ms, which counts one
  keystroke, and the session is paused one minute later.
\<close>

definition paste_state :: app_state where
  "paste_state =
     run (initial 0)
       [OnKeyEvent ''Control'', OnKeyEvent ''v'', OnTextChanged ''aaaaaaaaaa'' 1000,
        Pause 61000]"

text \<open>A session started by typing one character and paused a second later.\<close>

definition paused_state :: app_state where
  "paused_state = run (initial 0) [OnTextChanged ''a'' 1000, ToggleRunning 2000]"

text \<open>The report of a freshly mounted component.\<close>

definition initial_csv :: string where
  "initial_csv = downloadReport_csv ''2024-01-01T00:00:00.000Z'' (initial 0)"

section \<open>Properties of the state machine\<close>

lemmas op_defs = handleChange_def startIfNeeded_def handleKeyDown_def pause_def
  pauseResume_def resetAll_def setTimerMinutes_def checkTimerExpiry_def tick_def
  timerExpiryEffect_def

lemma expiring_state_eq:
  "expiring_state =
     \<lparr>text_st = ''a'', isRunning = True, startedAt = Some 1000, lastStart = Some 1000,
      accumulatedMs = 0, now = 60900, totalKeystrokes = 1, backspaces = 0, timerMinutes = 1\<rparr>"
  by (simp add: expiring_state_def run_def initial_def setTimerMinutes_def handleKeyDown_def
      isPrintable_def handleChange_def startIfNeeded_def tick_def)

lemma paste_state_eq:
  "paste_state =
     \<lparr>text_st = ''aaaaaaaaaa'', isRunning = False, startedAt = Some 1000, lastStart = None,
      accumulatedMs = 60000, now = 0, totalKeystrokes = 1, backspaces = 0, timerMinutes = 0\<rparr>"
  by (simp add: paste_state_def run_def initial_def handleKeyDown_def isPrintable_def
      handleChange_def startIfNeeded_def pause_def pauseResume_def)

lemma run_Cons: "run s (e # es) = run (step s e) es"
  by (simp add: run_def)

lemma run_append: "run s (xs @ ys) = run (run s xs) ys"
  by (simp add: run_def)

subsection \<open>The running flag and the resume timestamp\<close>

lemma resume_inv_initial: "resume_inv (initial n0)"
  by (simp add: resume_inv_def initial_def)

lemma resume_inv_step: "resume_inv s \<Longrightarrow> resume_inv (step s e)"
  by (cases e) (auto simp: resume_inv_def op_defs Let_def split: option.splits)

lemma resume_inv_run: "resume_inv s \<Longrightarrow> resume_inv (run s evs)"
  by (induction evs arbitrary: s) (simp_all add: run_def resume_inv_step)

text \<open>
  C7. In every state reached from the initial state by any sequence of the public
  operations (and of the interval's firing and the expiry effect, which
  \<open>checkTimerExpiry\<close> is made of), \<open>lastStart\<close> is non-null exactly when
  \<open>isRunning\<close> is true.
\<close>

theorem lastStart_set_iff_running:
  "(lastStart (run (initial n0) evs) \<noteq> None) = isRunning (run (initial n0) evs)"
  using resume_inv_run [OF resume_inv_initial, of n0 evs]
  by (simp add: resume_inv_def)

text \<open>The invariant at a session that was started by typing, paused and resumed.\<close>

theorem lastStart_set_iff_running_witness:
  "(lastStart (run (initial 0) [OnTextChanged ''a'' 1000, Pause 2000, ToggleRunning 3000]) \<noteq> None)
     = isRunning (run (initial 0) [OnTextChanged ''a'' 1000, Pause 2000, ToggleRunning 3000])
   \<and> isRunning (run (initial 0) [OnTextChanged ''a'' 1000, Pause 2000, ToggleRunning 3000])"
  using lastStart_set_iff_running [of 0 "[OnTextChanged ''a'' 1000, Pause 2000, ToggleRunning 3000]"]
  by (simp add: run_def initial_def handleChange_def startIfNeeded_def pause_def pauseResume_def)

subsection \<open>The accumulated active time\<close>

lemma step_resumed_by:
  "resumed_by c s \<Longrightarrow> clock_ok c [e] \<Longrightarrow> resumed_by (clock_after c [e]) (step s e)"
  by (cases e) (auto simp: resumed_by_def op_defs Let_def split: option.splits)

lemma step_acc_mono:
  "resumed_by c s \<Longrightarrow> clock_ok c [e] \<Longrightarrow> \<not> is_reset e \<Longrightarrow>
     accumulatedMs s \<le> accumulatedMs (step s e)"
  by (cases e) (auto simp: resumed_by_def op_defs Let_def split: option.splits)

lemma clock_ok_Cons:
  "clock_ok c (e # es) = (clock_ok c [e] \<and> clock_ok (clock_after c [e]) es)"
  by (simp split: option.splits)

lemma clock_after_Cons: "clock_after c (e # es) = clock_after (clock_after c [e]) es"
  by (simp split: option.splits)

lemma clock_ok_append:
  "clock_ok c (xs @ ys) = (clock_ok c xs \<and> clock_ok (clock_after c xs) ys)"
  by (induction xs arbitrary: c) (auto split: option.splits)

lemma run_resumed_by:
  "resumed_by c s \<Longrightarrow> clock_ok c evs \<Longrightarrow> resumed_by (clock_after c evs) (run s evs)"
proof (induction evs arbitrary: c s)
  case Nil
  then show ?case by (simp add: run_def)
next
  case (Cons e es)
  from Cons.prems(2) have 1: "clock_ok c [e]" and 2: "clock_ok (clock_after c [e]) es"
    using clock_ok_Cons [of c e es] by simp_all
  have "resumed_by (clock_after c [e]) (step s e)"
    using Cons.prems(1) 1 by (rule step_resumed_by)
  from Cons.IH [OF this 2] show ?case
    using clock_after_Cons [of c e es] by (simp add: run_Cons)
qed

lemma run_acc_mono:
  "resumed_by c s \<Longrightarrow> clock_ok c evs \<Longrightarrow> \<not> list_ex is_reset evs \<Longrightarrow>
     accumulatedMs s \<le> accumulatedMs (run s evs)"
proof (induction evs arbitrary: c s)
  case Nil
  then show ?case by (simp add: run_def)
next
  case (Cons e es)
  from Cons.prems(2) have 1: "clock_ok c [e]" and 2: "clock_ok (clock_after c [e]) es"
    using clock_ok_Cons [of c e es] by simp_all
  from Cons.prems(3) have 3: "\<not> is_reset e" and 4: "\<not> list_ex is_reset es"
    by simp_all
  have "resumed_by (clock_after c [e]) (step s e)"
    using Cons.prems(1) 1 by (rule step_resumed_by)
  from Cons.IH [OF this 2 4]
  have "accumulatedMs (step s e) \<le> accumulatedMs (run (step s e) es)" .
  moreover have "accumulatedMs s \<le> accumulatedMs (step s e)"
    using Cons.prems(1) 1 3 by (rule step_acc_mono)
  ultimately show ?case by (simp add: run_Cons)
qed

text \<open>
  C5, as amended. Along every sequence of operations whose timestamps never go
  backwards, \<open>accumulatedMs\<close> does not decrease over any stretch \<open>ys\<close> that holds no
  reset; a reset sets it to 0; and starting, a text change, a key event, setting the
  timer, the interval's firing and resuming leave it as it is, so that it changes only
  on pause, timer-expiry and reset transitions.
\<close>

theorem accumulatedMs_monotone_without_reset:
  "(resumed_by c s \<and> clock_ok c (xs @ ys) \<and> \<not> list_ex is_reset ys \<longrightarrow>
      accumulatedMs (run s xs) \<le> accumulatedMs (run s (xs @ ys)))
   \<and> accumulatedMs (resetAll ts s) = 0
   \<and> accumulatedMs (startIfNeeded ts s) = accumulatedMs s
   \<and> accumulatedMs (handleChange ts v s) = accumulatedMs s
   \<and> accumulatedMs (handleKeyDown key s) = accumulatedMs s
   \<and> accumulatedMs (setTimerMinutes n s) = accumulatedMs s
   \<and> accumulatedMs (tick ts s) = accumulatedMs s
   \<and> (\<not> isRunning s \<longrightarrow> accumulatedMs (pauseResume ts s) = accumulatedMs s
        \<and> accumulatedMs (pause ts s) = accumulatedMs s)"
proof -
  have "accumulatedMs (run s xs) \<le> accumulatedMs (run s (xs @ ys))"
    if a: "resumed_by c s" and b: "clock_ok c (xs @ ys)" and d: "\<not> list_ex is_reset ys"
  proof -
    from b have 1: "clock_ok c xs" and 2: "clock_ok (clock_after c xs) ys"
      by (simp_all add: clock_ok_append)
    have "resumed_by (clock_after c xs) (run s xs)"
      using a 1 by (rule run_resumed_by)
    from run_acc_mono [OF this 2 d] show ?thesis
      by (simp add: run_append)
  qed
  moreover have "accumulatedMs (resetAll ts s) = 0"
    by (simp add: resetAll_def)
  moreover have "accumulatedMs (startIfNeeded ts s) = accumulatedMs s"
    by (simp add: startIfNeeded_def Let_def)
  moreover have "accumulatedMs (handleChange ts v s) = accumulatedMs s"
    by (simp add: handleChange_def startIfNeeded_def Let_def)
  moreover have "accumulatedMs (handleKeyDown key s) = accumulatedMs s"
    by (simp add: handleKeyDown_def Let_def)
  moreover have "accumulatedMs (setTimerMinutes n s) = accumulatedMs s"
    by (simp add: setTimerMinutes_def)
  moreover have "accumulatedMs (tick ts s) = accumulatedMs s"
    by (simp add: tick_def)
  moreover have "\<not> isRunning s \<longrightarrow> accumulatedMs (pauseResume ts s) = accumulatedMs s
        \<and> accumulatedMs (pause ts s) = accumulatedMs s"
    by (simp add: pause_def pauseResume_def Let_def)
  ultimately show ?thesis by blast
qed

text \<open>
  Two pauses, 1000 ms of active time before the first and 1500 ms more before the
  second: the hypotheses hold and the accumulated time grows from 1000 to 2500.
\<close>

theorem accumulatedMs_monotone_without_reset_witness:
  "resumed_by 0 (initial 0)
   \<and> clock_ok 0 ([ToggleRunning 1000, ToggleRunning 2000] @ [Start 3000, OnKeyEvent ''a'', Pause 4500])
   \<and> \<not> list_ex is_reset [Start 3000, OnKeyEvent ''a'', Pause 4500]
   \<and> accumulatedMs (run (initial 0) [ToggleRunning 1000, ToggleRunning 2000]) = 1000
   \<and> accumulatedMs (run (initial 0)
        ([ToggleRunning 1000, ToggleRunning 2000] @ [Start 3000, OnKeyEvent ''a'', Pause 4500])) = 2500
   \<and> accumulatedMs (run (initial 0) [ToggleRunning 1000, ToggleRunning 2000])
        \<le> accumulatedMs (run (initial 0)
        ([ToggleRunning 1000, ToggleRunning 2000] @ [Start 3000, OnKeyEvent ''a'', Pause 4500]))"
  using accumulatedMs_monotone_without_reset [of 0 "initial 0"
      "[ToggleRunning 1000, ToggleRunning 2000]" "[Start 3000, OnKeyEvent ''a'', Pause 4500]"]
  by (simp add: run_def initial_def resumed_by_def pauseResume_def pause_def startIfNeeded_def
      handleKeyDown_def isPrintable_def)

text \<open>
  C5 as it is stated fails: a reset after a pause takes \<open>accumulatedMs\<close> from 1000
  back to 0; and when the clock is set back between a resume and the pause that
  follows it, the pause adds a negative interval.
\<close>

theorem accumulatedMs_reset_decreases:
  "accumulatedMs (run (initial 0) [ToggleRunning 1000, ToggleRunning 2000]) = 1000
   \<and> accumulatedMs (run (initial 0) [ToggleRunning 1000, ToggleRunning 2000, Reset 3000]) = 0
   \<and> \<not> accumulatedMs (run (initial 0) [ToggleRunning 1000, ToggleRunning 2000])
        \<le> accumulatedMs (run (initial 0) [ToggleRunning 1000, ToggleRunning 2000, Reset 3000])
   \<and> accumulatedMs (run (initial 0) [ToggleRunning 2000]) = 0
   \<and> accumulatedMs (run (initial 0) [ToggleRunning 2000, ToggleRunning 1000]) = - 1000"
  by (simp add: run_def initial_def pauseResume_def resetAll_def)

subsection \<open>Timer expiry\<close>

text \<open>
  C1. With the timer enabled, the session running and the active time at the limit,
  \<open>checkTimerExpiry\<close> stops the session and clears \<open>lastStart\<close>, but it leaves
  \<open>accumulatedMs\<close> as it was: at \<open>expiring_state\<close>, \<open>pause\<close> freezes 60000 ms
  where the expiry keeps 0, and the active time read afterwards is 0.
\<close>

theorem checkTimerExpiry_drops_interval:
  "timerEnabled expiring_state \<and> isRunning expiring_state
   \<and> getActiveElapsedMs 61000 expiring_state = 60000
   \<and> timerMs expiring_state = 60000
   \<and> accumulatedMs (pause 61000 expiring_state) = 60000
   \<and> accumulatedMs (checkTimerExpiry 61000 expiring_state) = 0
   \<and> \<not> isRunning (checkTimerExpiry 61000 expiring_state)
   \<and> lastStart (checkTimerExpiry 61000 expiring_state) = None
   \<and> getActiveElapsedMs 62000 (checkTimerExpiry 61000 expiring_state) = 0"
  by (simp add: expiring_state_eq timerEnabled_def timerMs_def
      getActiveElapsedMs_def activeElapsedMs_def pause_def pauseResume_def
      checkTimerExpiry_def tick_def timerExpiryEffect_def)

section \<open>Properties of the event handlers\<close>

text \<open>
  C3, as amended. \<open>handleChange\<close> replaces the stored text and triggers the start
  exactly when the new text is non-empty, whatever the previous text was. When the
  new text is empty, or the session already runs with \<open>startedAt\<close> set, nothing
  but the text changes; when the new text is non-empty and the session does not run
  (idle or paused), the session runs again from \<open>ts\<close> and \<open>startedAt\<close> is set if
  it was not.
\<close>

theorem handleChange_starts_on_nonempty:
  "handleChange ts v s = (if v = [] then s else startIfNeeded ts s)\<lparr>text_st := v\<rparr>
   \<and> (v = [] \<or> isRunning s \<and> startedAt s \<noteq> None \<longrightarrow>
        handleChange ts v s = s\<lparr>text_st := v\<rparr>)
   \<and> (v \<noteq> [] \<and> \<not> isRunning s \<longrightarrow>
        handleChange ts v s =
          s\<lparr>text_st := v, isRunning := True, lastStart := Some ts,
            startedAt := (case startedAt s of None \<Rightarrow> Some ts | Some t0 \<Rightarrow> Some t0)\<rparr>)"
  by (auto simp: handleChange_def startIfNeeded_def Let_def split: option.splits)

lemma paused_state_eq:
  "paused_state =
     \<lparr>text_st = ''a'', isRunning = False, startedAt = Some 1000, lastStart = None,
      accumulatedMs = 1000, now = 0, totalKeystrokes = 0, backspaces = 0, timerMinutes = 0\<rparr>"
  by (simp add: paused_state_def run_def initial_def handleChange_def startIfNeeded_def
      pauseResume_def)

text \<open>
  Typing a second character into the paused session resumes it at 3000 ms; clearing
  the text of the paused session changes the text only.
\<close>

theorem handleChange_starts_on_nonempty_witness:
  "''ab'' \<noteq> [] \<and> \<not> isRunning paused_state
   \<and> handleChange 3000 ''ab'' paused_state =
        paused_state\<lparr>text_st := ''ab'', isRunning := True, lastStart := Some 3000,
          startedAt := Some 1000\<rparr>
   \<and> handleChange 3000 [] paused_state = paused_state\<lparr>text_st := []\<rparr>"
  using handleChange_starts_on_nonempty [of 3000 "''ab''" paused_state]
    handleChange_starts_on_nonempty [of 3000 "[]" paused_state]
  by (simp add: paused_state_eq startIfNeeded_def)

text \<open>
  C3 as it is stated fails: the previous text of \<open>paused_state\<close> is non-empty and
  the session is paused, yet a text change makes it run again.
\<close>

theorem handleChange_resumes_paused_session:
  "text_st paused_state \<noteq> [] \<and> \<not> isRunning paused_state
   \<and> isRunning (handleChange 3000 ''ab'' paused_state)
   \<and> lastStart (handleChange 3000 ''ab'' paused_state) = Some 3000
   \<and> handleChange 3000 ''ab'' paused_state \<noteq> paused_state\<lparr>text_st := ''ab''\<rparr>"
proof -
  have r: "isRunning (handleChange 3000 ''ab'' paused_state)"
    by (simp add: paused_state_eq handleChange_def startIfNeeded_def)
  have l: "lastStart (handleChange 3000 ''ab'' paused_state) = Some 3000"
    by (simp add: paused_state_eq handleChange_def startIfNeeded_def)
  have n: "\<not> isRunning (paused_state\<lparr>text_st := ''ab''\<rparr>)"
    by (simp add: paused_state_eq)
  from r n have "handleChange 3000 ''ab'' paused_state \<noteq> paused_state\<lparr>text_st := ''ab''\<rparr>"
    by metis
  with r l show ?thesis by (simp add: paused_state_eq)
qed

text \<open>
  C6, as amended. \<open>handleKeyDown\<close> adds exactly 1 to \<open>totalKeystrokes\<close> when the
  key is a string of length 1, Enter, Tab, a space or Spacebar; it adds exactly 1 to
  both \<open>totalKeystrokes\<close> and \<open>backspaces\<close> when the key is Backspace; for every
  other key the state is unchanged.
\<close>

theorem handleKeyDown_counts:
  "(length key = 1 \<or> key = ''Enter'' \<or> key = ''Tab'' \<or> key = '' '' \<or> key = ''Spacebar'' \<longrightarrow>
      handleKeyDown key s = s\<lparr>totalKeystrokes := totalKeystrokes s + 1\<rparr>)
   \<and> (key = ''Backspace'' \<longrightarrow>
      handleKeyDown key s =
        s\<lparr>totalKeystrokes := totalKeystrokes s + 1, backspaces := backspaces s + 1\<rparr>)
   \<and> (length key \<noteq> 1 \<and> key \<noteq> ''Enter'' \<and> key \<noteq> ''Tab'' \<and> key \<noteq> '' '' \<and> key \<noteq> ''Spacebar''
        \<and> key \<noteq> ''Backspace'' \<longrightarrow> handleKeyDown key s = s)"
  by (auto simp: handleKeyDown_def isPrintable_def Let_def)

text \<open>One key of each class, pressed at the initial state.\<close>

theorem handleKeyDown_counts_witness:
  "handleKeyDown ''a'' (initial 0) = (initial 0)\<lparr>totalKeystrokes := 1\<rparr>
   \<and> handleKeyDown ''Enter'' (initial 0) = (initial 0)\<lparr>totalKeystrokes := 1\<rparr>
   \<and> handleKeyDown ''Backspace'' (initial 0) = (initial 0)\<lparr>totalKeystrokes := 1, backspaces := 1\<rparr>
   \<and> handleKeyDown ''Shift'' (initial 0) = initial 0
   \<and> handleKeyDown ''ArrowLeft'' (initial 0) = initial 0"
  using handleKeyDown_counts [of "''a''" "initial 0"]
    handleKeyDown_counts [of "''Enter''" "initial 0"]
    handleKeyDown_counts [of "''Backspace''" "initial 0"]
    handleKeyDown_counts [of "''Shift''" "initial 0"]
    handleKeyDown_counts [of "''ArrowLeft''" "initial 0"]
  by (simp add: initial_def)

text \<open>
  C6 as it is stated fails: the key Spacebar, which the claim lists among the keys
  without effect, is counted as a keystroke.
\<close>

theorem handleKeyDown_Spacebar_counts:
  "totalKeystrokes (handleKeyDown ''Spacebar'' (initial 0)) = 1
   \<and> handleKeyDown ''Spacebar'' (initial 0) \<noteq> initial 0"
proof -
  have a: "totalKeystrokes (handleKeyDown ''Spacebar'' (initial 0)) = 1"
    by (simp add: handleKeyDown_def isPrintable_def initial_def)
  have b: "totalKeystrokes (initial 0) = 0"
    by (simp add: initial_def)
  from a b have "handleKeyDown ''Spacebar'' (initial 0) \<noteq> initial 0"
    by (metis zero_neq_one)
  with a show ?thesis by simp
qed

text \<open>
  C9. \<open>resetAll\<close> puts the text, the counters, the running flag, both timestamps
  and the accumulated time back to their initial values and keeps the timer
  setting; the statistics read at any later time \<open>t\<close> are 0 characters, 0 words,
  0 gross and net WPM and 100 percent accuracy, and the active time is 0.
\<close>

theorem resetAll_initial_values:
  "text_st (resetAll ts s) = [] \<and> totalKeystrokes (resetAll ts s) = 0
   \<and> backspaces (resetAll ts s) = 0 \<and> \<not> isRunning (resetAll ts s)
   \<and> startedAt (resetAll ts s) = None \<and> lastStart (resetAll ts s) = None
   \<and> accumulatedMs (resetAll ts s) = 0
   \<and> computeStats t (resetAll ts s) =
        \<lparr>chars = 0, words = 0, wpmGross = 0, netWpm = 0, accuracy = 100\<rparr>
   \<and> getActiveElapsedMs t (resetAll ts s) = 0
   \<and> timerMinutes (resetAll ts s) = timerMinutes s"
  by (simp add: resetAll_def computeStats_def getActiveElapsedMs_def stats_def
      elapsedMinutes_def activeElapsedMs_def Number_isFinite_def trim_def Let_def)

text \<open>A reset of the running session with the one-minute timer.\<close>

theorem resetAll_initial_values_witness:
  "resetAll 70000 expiring_state = (initial 70000)\<lparr>timerMinutes := 1\<rparr>
   \<and> computeStats 80000 (resetAll 70000 expiring_state) =
        \<lparr>chars = 0, words = 0, wpmGross = 0, netWpm = 0, accuracy = 100\<rparr>
   \<and> timerMinutes (resetAll 70000 expiring_state) = 1"
  using resetAll_initial_values [of 70000 expiring_state 80000]
  by (simp add: resetAll_def expiring_state_eq initial_def)

section \<open>Properties of the statistics\<close>

text \<open>
  C8. The accuracy that \<open>stats\<close> returns is 100 when no keystroke was counted,
  whatever the text, and otherwise the ratio of the character count to the keystroke
  count, in percent, clamped: \<open>min 100 (max 0 r)\<close>, which is the source's
  \<open>max 0 (min 100 r)\<close>. It always lies between 0 and 100.
\<close>

theorem accuracy_formula:
  "accuracy (stats s) =
     (if totalKeystrokes s = 0 then 100
      else min 100 (max 0 (of_nat (length (text_st s)) / of_nat (totalKeystrokes s) * 100)))
   \<and> 0 \<le> accuracy (stats s) \<and> accuracy (stats s) \<le> 100"
  by (simp add: stats_def Let_def min_def max_def)

text \<open>
  The text abc with no keystroke counted, with four keystrokes and with two
  keystrokes: 100, 75 and (clamped from 150) 100 percent.
\<close>

theorem accuracy_formula_witness:
  "accuracy (stats ((initial 0)\<lparr>text_st := ''abc''\<rparr>)) = 100
   \<and> accuracy (stats ((initial 0)\<lparr>text_st := ''abc'', totalKeystrokes := 4\<rparr>)) = 75
   \<and> accuracy (stats ((initial 0)\<lparr>text_st := ''abc'', totalKeystrokes := 2\<rparr>)) = 100"
  using accuracy_formula [of "(initial 0)\<lparr>text_st := ''abc''\<rparr>"]
    accuracy_formula [of "(initial 0)\<lparr>text_st := ''abc'', totalKeystrokes := 4\<rparr>"]
    accuracy_formula [of "(initial 0)\<lparr>text_st := ''abc'', totalKeystrokes := 2\<rparr>"]
  by (simp add: initial_def)

text \<open>
  C2. The net WPM is the gross WPM times the accuracy before it is clamped: at
  \<open>paste_state\<close>, with ten characters after one keystroke in one minute, the
  gross WPM is 2, the accuracy returned is 100 percent, and the net WPM is 20, ten
  times the gross.
\<close>

theorem netWpm_exceeds_grossWpm:
  "length (text_st paste_state) = 10 \<and> totalKeystrokes paste_state = 1
   \<and> wpmGross (stats paste_state) = 2 \<and> accuracy (stats paste_state) = 100
   \<and> netWpm (stats paste_state) = 20"
  by (simp add: paste_state_eq stats_def elapsedMinutes_def activeElapsedMs_def
      Number_isFinite_def Let_def)

subsection \<open>The word count\<close>

lemma tokens_dropWhile_space: "tokens (dropWhile isSpace cs) = tokens cs"
  by (induction cs) simp_all

lemma tokens_nonspace_head:
  "cs \<noteq> [] \<Longrightarrow> \<not> isSpace (hd cs) \<Longrightarrow>
     tokens cs = takeWhile (\<lambda>x. \<not> isSpace x) cs # tokens (dropWhile (\<lambda>x. \<not> isSpace x) cs)"
  by (cases cs) simp_all

lemma last_dropWhile_keep:
  "cs \<noteq> [] \<Longrightarrow> \<not> P (last cs) \<Longrightarrow> dropWhile P cs \<noteq> [] \<and> last (dropWhile P cs) = last cs"
  by (induction cs) (auto split: if_splits)

text \<open>
  On a text that does not end in white space, and with a piece in hand or a text that
  does not begin with white space, the split yields the piece extended to the next
  white space, followed by the tokens of the rest.
\<close>

lemma split_ws_tokens:
  "cs = [] \<or> \<not> isSpace (last cs) \<Longrightarrow>
   cur \<noteq> [] \<or> (cs \<noteq> [] \<and> \<not> isSpace (hd cs)) \<Longrightarrow>
   split_ws cur cs =
     (cur @ takeWhile (\<lambda>x. \<not> isSpace x) cs) # tokens (dropWhile (\<lambda>x. \<not> isSpace x) cs)"
proof (induction cur cs rule: split_ws.induct)
  case (1 cur)
  then show ?case by simp
next
  case (2 cur c cs)
  show ?case
  proof (cases "isSpace c")
    case True
    with "2.prems" have ne: "cs \<noteq> []" and l: "\<not> isSpace (last cs)"
      by (auto split: if_splits)
    let ?d = "dropWhile isSpace cs"
    from last_dropWhile_keep [of cs isSpace] ne l
    have dne: "?d \<noteq> []" and dl: "\<not> isSpace (last ?d)"
      by simp_all
    from dne have dh: "\<not> isSpace (hd ?d)"
      by (simp add: hd_dropWhile)
    have "split_ws [] ?d =
        ([] @ takeWhile (\<lambda>x. \<not> isSpace x) ?d) # tokens (dropWhile (\<lambda>x. \<not> isSpace x) ?d)"
      using "2.IH"(1) [OF True] dne dl dh by blast
    also have "\<dots> = tokens ?d"
      using tokens_nonspace_head [OF dne dh] by simp
    also have "\<dots> = tokens cs"
      by (rule tokens_dropWhile_space)
    finally show ?thesis using True by simp
  next
    case False
    with "2.prems" have "cs = [] \<or> \<not> isSpace (last cs)"
      by (auto split: if_splits)
    with "2.IH"(2) [OF False] have
      "split_ws (cur @ [c]) cs =
         ((cur @ [c]) @ takeWhile (\<lambda>x. \<not> isSpace x) cs)
           # tokens (dropWhile (\<lambda>x. \<not> isSpace x) cs)"
      by blast
    with False show ?thesis by simp
  qed
qed

lemma all_dropWhile: "(\<forall>x \<in> set (dropWhile P t). P x) = (\<forall>x \<in> set t. P x)"
  by (induction t) simp_all

lemma trim_Nil_iff: "(trim t = []) = (\<forall>c \<in> set t. isSpace c)"
proof -
  have "(trim t = []) = (\<forall>x \<in> set (dropWhile isSpace t). isSpace x)"
    by (simp add: trim_def dropWhile_eq_Nil_conv)
  then show ?thesis
    by (simp only: all_dropWhile)
qed

lemma trim_ends:
  assumes "trim t \<noteq> []"
  shows "\<not> isSpace (hd (trim t))" and "\<not> isSpace (last (trim t))"
proof -
  let ?a = "dropWhile isSpace t"
  let ?b = "dropWhile isSpace (rev ?a)"
  from assms have bne: "?b \<noteq> []" by (simp add: trim_def)
  have ane: "?a \<noteq> []"
  proof
    assume "?a = []"
    then have "?b = dropWhile isSpace (rev [])" by (simp only:)
    with bne show False by simp
  qed
  from bne have "\<not> isSpace (hd ?b)" by (simp add: hd_dropWhile)
  then show "\<not> isSpace (last (trim t))"
    using bne by (simp add: trim_def last_rev)
  from ane have ha: "\<not> isSpace (hd ?a)" by (simp add: hd_dropWhile)
  then have "\<not> isSpace (last (rev ?a))" using ane by (simp add: last_rev)
  from last_dropWhile_keep [of "rev ?a" isSpace] this ane
  have "last ?b = last (rev ?a)" by simp
  then have "last ?b = hd ?a" using ane by (simp add: last_rev)
  then have "hd (trim t) = hd ?a" using bne by (simp add: trim_def hd_rev)
  with ha show "\<not> isSpace (hd (trim t))" by simp
qed

lemma split_ws_trim: "trim t \<noteq> [] \<Longrightarrow> split_ws [] (trim t) = tokens (trim t)"
  using split_ws_tokens [of "trim t" "[]"] trim_ends [of t]
    tokens_nonspace_head [of "trim t"]
  by simp

text \<open>
  C10. The word count that \<open>stats\<close> returns is 0 when the trimmed text is empty,
  which is the case exactly when every character of the text is white space, and
  otherwise the number of white-space-delimited tokens of the trimmed text.
\<close>

theorem words_count_tokens:
  "words (stats s) = (if trim (text_st s) = [] then 0 else length (tokens (trim (text_st s))))
   \<and> (trim (text_st s) = []) = (\<forall>c \<in> set (text_st s). isSpace c)"
  by (simp add: stats_def Let_def split_ws_trim trim_Nil_iff)

text \<open>
  The empty text and a text of three spaces have 0 words, although the split of the
  empty text has one piece; a text of three words between spaces has 3.
\<close>

theorem words_count_tokens_witness:
  "words (stats ((initial 0)\<lparr>text_st := []\<rparr>)) = 0
   \<and> words (stats ((initial 0)\<lparr>text_st := ''   ''\<rparr>)) = 0
   \<and> length (split_ws [] []) = 1
   \<and> tokens (trim '' hello  big world '') = [''hello'', ''big'', ''world'']
   \<and> words (stats ((initial 0)\<lparr>text_st := '' hello  big world ''\<rparr>)) = 3"
  using words_count_tokens [of "(initial 0)\<lparr>text_st := []\<rparr>"]
    words_count_tokens [of "(initial 0)\<lparr>text_st := ''   ''\<rparr>"]
    words_count_tokens [of "(initial 0)\<lparr>text_st := '' hello  big world ''\<rparr>"]
  by (simp add: trim_def isSpace_def)

section \<open>Properties of the exported report\<close>

lemma show_nat_digit: "n < 10 \<Longrightarrow> show_nat n = [digit n]"
  by (subst show_nat.simps) simp

lemma show_nat_step:
  "10 \<le> n \<Longrightarrow> show_nat n = show_nat (n div 10) @ [digit (n mod 10)]"
  by (subst show_nat.simps) simp

lemma show_nat_0: "show_nat 0 = ''0''"
  by (simp add: show_nat_digit digit_def)

lemma show_nat_100: "show_nat 100 = ''100''"
  by (simp add: show_nat_step show_nat_digit digit_def)

lemma show_fixed2_0: "show_fixed2 0 = ''0''"
  by (simp add: show_fixed2_def show_nat_0)

lemma show_fixed2_100: "show_fixed2 100 = ''100''"
  by (simp add: show_fixed2_def show_nat_100)

lemma show_int_round_0: "show_int (Math_round 0) = ''0''"
  by (simp add: show_int_def Math_round_def show_nat_0)

lemma stats_initial:
  "stats (initial n0) = \<lparr>chars = 0, words = 0, wpmGross = 0, netWpm = 0, accuracy = 100\<rparr>"
  by (simp add: stats_def initial_def elapsedMinutes_def activeElapsedMs_def
      Number_isFinite_def trim_def)

lemma row_values_initial:
  "row_values d (initial n0) = [d, ''0'', ''0'', ''0'', ''0'', ''0'', ''100'', ''0'', ''0'', ''0'']"
proof -
  have "activeElapsedMs (initial n0) = 0"
    by (simp add: initial_def activeElapsedMs_def)
  moreover have "totalKeystrokes (initial n0) = 0" "backspaces (initial n0) = 0"
    "timerMinutes (initial n0) = 0"
    by (simp_all add: initial_def)
  ultimately show ?thesis
    unfolding row_values_def stats_initial
    by (simp add: show_nat_0 show_fixed2_0 show_fixed2_100 show_int_round_0)
qed

lemma initial_csv_eq:
  "initial_csv =
     ''date,duration_seconds,characters,words,wpm_gross,wpm_net,accuracy_percent,keystrokes,backspaces,timer_minutes''
       @ [CHR 0x5C, CHR ''n''] @ ''2024-01-01T00:00:00.000Z,0,0,0,0,0,100,0,0,0''
       @ [CHR 0x5C, CHR ''n'']"
  unfolding initial_csv_def downloadReport_csv_def row_values_initial
  by (simp add: row_keys_def row_sep_def)

text \<open>
  C4. The report of the initial state is the header, a backslash and the letter n,
  the ten values, a backslash and the letter n. It holds no line feed, so it is a
  single row; split at commas that row has 19 fields, and the tenth is the last
  header name, the backslash, the letter n and the date in one.
\<close>

theorem downloadReport_csv_single_row:
  "initial_csv =
     ''date,duration_seconds,characters,words,wpm_gross,wpm_net,accuracy_percent,keystrokes,backspaces,timer_minutes''
       @ [CHR 0x5C, CHR ''n''] @ ''2024-01-01T00:00:00.000Z,0,0,0,0,0,100,0,0,0''
       @ [CHR 0x5C, CHR ''n'']
   \<and> split_on (CHR 0x0A) [] initial_csv = [initial_csv]
   \<and> length (split_on (CHR '','') [] initial_csv) = 19
   \<and> split_on (CHR '','') [] initial_csv ! 9
        = ''timer_minutes'' @ [CHR 0x5C, CHR ''n''] @ ''2024-01-01T00:00:00.000Z''"
  unfolding initial_csv_eq by simp

section \<open>Further properties of the timing\<close>

text \<open>
  Pausing freezes the active time: read at any later time, it is what it was at the
  moment of the pause.
\<close>

theorem pause_freezes_elapsed:
  "getActiveElapsedMs t (pause ts s) = getActiveElapsedMs ts s"
  by (simp add: getActiveElapsedMs_def activeElapsedMs_def pause_def pauseResume_def Let_def
      split: option.splits)

theorem pause_freezes_elapsed_witness:
  "getActiveElapsedMs 99000 (pause 61000 expiring_state) = 60000
   \<and> getActiveElapsedMs 61000 expiring_state = 60000"
  using pause_freezes_elapsed [of 99000 61000 expiring_state]
  by (simp add: getActiveElapsedMs_def activeElapsedMs_def expiring_state_eq)

text \<open>
  Pressing Pause/Resume twice at one timestamp, from a session that does not run,
  leaves the active time as it was.
\<close>

theorem pauseResume_twice_keeps_elapsed:
  "\<not> isRunning s \<Longrightarrow>
     getActiveElapsedMs t (pauseResume ts (pauseResume ts s)) = getActiveElapsedMs t s"
  by (simp add: getActiveElapsedMs_def activeElapsedMs_def pauseResume_def Let_def
      split: option.splits)

theorem pauseResume_twice_keeps_elapsed_witness:
  "\<not> isRunning paused_state
   \<and> getActiveElapsedMs 9000 (pauseResume 5000 (pauseResume 5000 paused_state)) = 1000
   \<and> getActiveElapsedMs 9000 paused_state = 1000"
  using pauseResume_twice_keeps_elapsed [of paused_state 9000 5000]
  by (simp add: paused_state_eq getActiveElapsedMs_def activeElapsedMs_def)

text \<open>
  On a session that does not run, \<open>checkTimerExpiry\<close> changes nothing; so once an
  expiry has stopped the session, a second check is without effect.
\<close>

theorem checkTimerExpiry_idle_noop:
  "(\<not> isRunning s \<longrightarrow> checkTimerExpiry ts s = s)
   \<and> (\<not> isRunning (checkTimerExpiry t1 s) \<longrightarrow>
        checkTimerExpiry t2 (checkTimerExpiry t1 s) = checkTimerExpiry t1 s)"
  by (simp add: checkTimerExpiry_def tick_def timerExpiryEffect_def)

theorem checkTimerExpiry_idle_noop_witness:
  "\<not> isRunning (checkTimerExpiry 61000 expiring_state)
   \<and> checkTimerExpiry 62000 (checkTimerExpiry 61000 expiring_state)
        = checkTimerExpiry 61000 expiring_state"
  using checkTimerExpiry_idle_noop [of expiring_state 0 61000 62000]
  by (simp add: expiring_state_eq timerEnabled_def timerMs_def
      activeElapsedMs_def checkTimerExpiry_def tick_def timerExpiryEffect_def)

text \<open>125000 ms are shown as two minutes and five seconds.\<close>

theorem formatTime_125000: "formatTime 125000 = ''02:05''"
proof -
  have "show_int 2 = ''2''" and "show_int 5 = ''5''"
    by (simp_all add: show_int_def show_nat_digit digit_def)
  moreover have "(125000::int) div 1000 div 60 = 2" and "js_rem (125000 div 1000) 60 = 5"
    by (simp_all add: js_rem_def)
  ultimately show ?thesis
    by (simp add: formatTime_def padStart2_def)
qed

end
